theory Spec2Isabelle
  imports Main "HOL-Library.Sublist"
begin

section \<open>Go results\<close>

text \<open>
  A Go function either returns its results or panics (a nil pointer dereference).
  A result of type \<open>error\<close> is \<open>None\<close> for Go's \<open>nil\<close>; a function returning
  \<open>(T, error)\<close> returns a pair, since Go returns both components on every path.
  Slices are lists, and the nil slice is the empty list.
\<close>

datatype 'a outcome = Return 'a | Panic

section \<open>Package errors (src/unnamed/part\_000)\<close>

text \<open>
  Modelled from the spec: the types \<open>api.StoragePool\<close>, its operation record and the
  enumeration constant \<open>api.SdkStoragePool_OPERATION_RESIZE\<close> are declared in package
  \<open>api\<close>, which is not among the sources. The spec gives a pool an identifier and a
  recorded last operation with a type, a progress message and parameters, the last two
  rendered as text (\<open>Msg:"expanding", Params:"+50GiB"\<close>). Every other value of the
  operation type is \<open>SdkStoragePool_OPERATION_OTHER n\<close>.
\<close>

datatype SdkStoragePool_OperationType =
    SdkStoragePool_OPERATION_RESIZE
  | SdkStoragePool_OPERATION_OTHER nat

record StoragePoolOperation =
  Type :: SdkStoragePool_OperationType
  Msg :: string
  Params :: string

record StoragePool =
  Uuid :: string
  LastOperation :: "StoragePoolOperation option"

text \<open>
  Modelled from the spec: \<open>GetUuid\<close> is the generated getter of the pool's identifier
  (package \<open>api\<close>); like every generated getter it answers the empty string on a nil
  pool.
\<close>

definition GetUuid :: "StoragePool option \<Rightarrow> string" where
  "GetUuid p = (case p of None \<Rightarrow> [] | Some q \<Rightarrow> Uuid q)"

text \<open>
  The four error types of the package. \<open>ErrNotSupported\<close> is \<open>struct{}\<close>: its
  constructor has no argument. \<open>Pool\<close> is a pointer, \<open>None\<close> when nil.
\<close>

datatype errors_error =
    ErrNotFound string string
  | ErrExists string string
  | ErrNotSupported
  | ErrStoragePoolResizeInProgress "StoragePool option"

text \<open>
  The method \<open>Error()\<close> of each type. \<open>fmt.Sprintf\<close> with \<open>%v\<close> or \<open>%s\<close> on strings
  is concatenation. The arguments of \<open>ErrNotFound\<close> and \<open>ErrExists\<close> are the fields
  \<open>ID\<close> and \<open>Type\<close>, in the order of the declaration. In the last method
  \<open>e.Pool.LastOperation\<close> dereferences the pool after \<open>GetUuid\<close> has been called on it.
\<close>

fun Error :: "errors_error \<Rightarrow> string outcome" where
  "Error (ErrNotFound ID Typ) = Return (Typ @ '' with ID: '' @ ID @ '' not found'')"
| "Error (ErrExists ID Typ) = Return (Typ @ '' with ID: '' @ ID @ '' already exists'')"
| "Error ErrNotSupported = Return ''Not Supported''"
| "Error (ErrStoragePoolResizeInProgress pool) =
     (let errMsg = ''a resize for pool: '' @ GetUuid pool @ '' is already in progress.'' in
      case pool of
        None \<Rightarrow> Panic
      | Some p \<Rightarrow>
          (case LastOperation p of
             None \<Rightarrow> Return errMsg
           | Some opn \<Rightarrow>
               if Type opn = SdkStoragePool_OPERATION_RESIZE
               then Return (errMsg @ '' '' @ Msg opn @ '' '' @ Params opn)
               else Return errMsg))"

section \<open>The persisted record (src/drivers/nfs/nfs.go)\<close>

text \<open>
  Modelled from the spec: \<open>api.VolumeSpec\<close> is declared in package \<open>api\<close>, which is
  not among the sources. The spec gives it a requested size and a desired format; the
  driver reads \<open>Format\<close> only.
\<close>

record VolumeSpec =
  Size :: nat
  Format :: string

record awsVolume =
  spec :: VolumeSpec
  formatted :: bool
  attached :: bool
  mounted :: bool
  device :: string
  mountpath :: string

text \<open>The zero value \<open>awsVolume{}\<close>.\<close>

definition awsVolume_zero :: awsVolume where
  "awsVolume_zero =
     \<lparr>spec = \<lparr>Size = 0, Format = []\<rparr>, formatted = False, attached = False,
      mounted = False, device = [], mountpath = []\<rparr>"

section \<open>What the driver calls: errors, the key-value store, the operating system\<close>

datatype errno = ENOENT | EINVAL | EBUSY | EPERM | ENOTEMPTY | EIO

datatype kvdb_error = kvdb_ErrNotFound | kvdb_ErrUnreachable

text \<open>
  An error the driver returns: a value of package errors, an error of the key-value
  store, or an error of an operating-system call, each passed on as it was received.
\<close>

datatype error =
    PkgError errors_error
  | KvdbError kvdb_error
  | OsError errno

text \<open>
  Modelled from the spec: \<open>volume.ErrNotSupported\<close> is a variable of package
  \<open>volume\<close>, which is not among the sources. The spec names it the uniform
  \<open>NotSupported\<close> error of the error taxonomy.
\<close>

definition volume_ErrNotSupported :: error where
  "volume_ErrNotSupported = PkgError ErrNotSupported"

text \<open>
  Modelled from the spec: the key-value store (\<open>kvdb.Kvdb\<close>) is an external service
  with \<open>get(key) -> (value, error)\<close>, \<open>put(key, value, ttl) -> error\<close> and
  \<open>delete(key) -> error\<close>; a missing key and an unreachable store are different
  errors; a ttl of 0 is no expiry, and the driver passes no other. The store keeps what
  was put: \<open>kv_data\<close>. \<open>kv_faults\<close> says, for each request to come, whether the store
  is unreachable then (no entry: reachable); a request that finds the store unreachable
  changes no data.
\<close>

record kvdb =
  kv_data :: "string \<rightharpoonup> awsVolume"
  kv_faults :: "bool list"

definition kvdb_request :: "kvdb \<Rightarrow> bool \<times> kvdb" where
  "kvdb_request kv =
     (case kv_faults kv of
        [] \<Rightarrow> (False, kv)
      | f # fs \<Rightarrow> (f, kv\<lparr>kv_faults := fs\<rparr>))"

definition kvdb_GetVal :: "kvdb \<Rightarrow> string \<Rightarrow> awsVolume \<Rightarrow> (awsVolume \<times> error option) \<times> kvdb" where
  "kvdb_GetVal kv key v =
     (case kvdb_request kv of
        (True, kv1) \<Rightarrow> ((v, Some (KvdbError kvdb_ErrUnreachable)), kv1)
      | (False, kv1) \<Rightarrow>
          (case kv_data kv1 key of
             None \<Rightarrow> ((v, Some (KvdbError kvdb_ErrNotFound)), kv1)
           | Some r \<Rightarrow> ((r, None), kv1)))"

definition kvdb_Put :: "kvdb \<Rightarrow> string \<Rightarrow> awsVolume \<Rightarrow> nat \<Rightarrow> error option \<times> kvdb" where
  "kvdb_Put kv key v ttl =
     (case kvdb_request kv of
        (True, kv1) \<Rightarrow> (Some (KvdbError kvdb_ErrUnreachable), kv1)
      | (False, kv1) \<Rightarrow> (None, kv1\<lparr>kv_data := (kv_data kv1)(key \<mapsto> v)\<rparr>))"

definition kvdb_Delete :: "kvdb \<Rightarrow> string \<Rightarrow> error option \<times> kvdb" where
  "kvdb_Delete kv key =
     (case kvdb_request kv of
        (True, kv1) \<Rightarrow> (Some (KvdbError kvdb_ErrUnreachable), kv1)
      | (False, kv1) \<Rightarrow>
          (case kv_data kv1 key of
             None \<Rightarrow> (Some (KvdbError kvdb_ErrNotFound), kv1)
           | Some r \<Rightarrow> (None, kv1\<lparr>kv_data := (kv_data kv1)(key := None)\<rparr>)))"

text \<open>
  The operating system is a parameter: a state of any type \<open>'os\<close> and the five calls
  the driver makes, each answering an error (\<open>None\<close> for nil) and the next state.
  \<open>exec_uuidgen\<close> is \<open>exec.Command("uuidgen").Output()\<close>, which answers the bytes
  written and an error.
\<close>

record 'os syscalls =
  exec_uuidgen :: "'os \<Rightarrow> (string \<times> errno option) \<times> 'os"
  os_MkdirAll :: "string \<Rightarrow> nat \<Rightarrow> 'os \<Rightarrow> errno option \<times> 'os"
  os_Remove :: "string \<Rightarrow> 'os \<Rightarrow> errno option \<times> 'os"
  syscall_Mount :: "string \<Rightarrow> string \<Rightarrow> string \<Rightarrow> nat \<Rightarrow> string \<Rightarrow> 'os \<Rightarrow> errno option \<times> 'os"
  syscall_Unmount :: "string \<Rightarrow> nat \<Rightarrow> 'os \<Rightarrow> errno option \<times> 'os"

text \<open>What an operation of the driver reads and changes: the store and the system.\<close>

record 'os world =
  db :: kvdb
  os :: "'os"

section \<open>The driver (src/drivers/nfs/nfs.go)\<close>

definition NfsDBKey :: string where
  "NfsDBKey = ''OpenStorageNFSKey''"

text \<open>
  The fields of \<open>nfsDriver\<close> that are data; its \<open>db\<close> is a handle on the store,
  which is part of the world.
\<close>

record nfsDriver =
  nfsServer :: string
  mntPath :: string

text \<open>\<open>strings.TrimSuffix\<close>: the string without the suffix, if it ends with it.\<close>

definition TrimSuffix :: "string \<Rightarrow> string \<Rightarrow> string" where
  "TrimSuffix s suf = (if suffix suf s then take (length s - length suf) s else s)"

definition get :: "nfsDriver \<Rightarrow> kvdb \<Rightarrow> string \<Rightarrow> (awsVolume \<times> error option) \<times> kvdb" where
  "get d kv volumeID =
     (let v = awsVolume_zero;
          key = NfsDBKey @ ''/'' @ volumeID
      in kvdb_GetVal kv key v)"

definition put :: "nfsDriver \<Rightarrow> kvdb \<Rightarrow> string \<Rightarrow> awsVolume \<Rightarrow> error option \<times> kvdb" where
  "put d kv volumeID v =
     (let key = NfsDBKey @ ''/'' @ volumeID
      in kvdb_Put kv key v 0)"

text \<open>\<open>del\<close> drops the error of the store's \<open>Delete\<close>.\<close>

definition del :: "nfsDriver \<Rightarrow> kvdb \<Rightarrow> string \<Rightarrow> kvdb" where
  "del d kv volumeID =
     (let key = NfsDBKey @ ''/'' @ volumeID
      in snd (kvdb_Delete kv key))"

text \<open>
  \<open>Create\<close>: \<open>spec\<close> is a pointer, and \<open>*spec\<close> is evaluated after the directory has
  been made and before \<open>put\<close> is called. The identifier is returned together with the
  error of \<open>put\<close>.
\<close>

definition Create ::
  "'os syscalls \<Rightarrow> nfsDriver \<Rightarrow> 'os world \<Rightarrow> 'l \<Rightarrow> 'o \<Rightarrow> VolumeSpec option
     \<Rightarrow> (string \<times> error option) outcome \<times> 'os world" where
  "Create sys d w l opt sp =
     (case exec_uuidgen sys (os w) of
        ((out, Some e), os1) \<Rightarrow> (Return ([], Some (OsError e)), w\<lparr>os := os1\<rparr>)
      | ((out, None), os1) \<Rightarrow>
          (let volumeID = TrimSuffix out [CHR 0x0A] in
           case os_MkdirAll sys (mntPath d @ volumeID) 484 os1 of
             (Some e, os2) \<Rightarrow> (Return ([], Some (OsError e)), w\<lparr>os := os2\<rparr>)
           | (None, os2) \<Rightarrow>
               (case sp of
                  None \<Rightarrow> (Panic, w\<lparr>os := os2\<rparr>)
                | Some s \<Rightarrow>
                    (case put d (db w) volumeID
                            (awsVolume_zero\<lparr>device := mntPath d @ volumeID, spec := s\<rparr>) of
                       (err, kv1) \<Rightarrow> (Return (volumeID, err), \<lparr>db = kv1, os = os2\<rparr>)))))"

definition Inspect ::
  "nfsDriver \<Rightarrow> 'os world \<Rightarrow> string list \<Rightarrow> ('v list \<times> error option) \<times> 'os world" where
  "Inspect d w volumeIDs = (([], None), w)"

definition Delete ::
  "'os syscalls \<Rightarrow> nfsDriver \<Rightarrow> 'os world \<Rightarrow> string \<Rightarrow> error option \<times> 'os world" where
  "Delete sys d w volumeID =
     (case get d (db w) volumeID of
        ((v, Some e), kv1) \<Rightarrow> (Some e, w\<lparr>db := kv1\<rparr>)
      | ((v, None), kv1) \<Rightarrow>
          (case os_Remove sys (device v) (os w) of
             (Some e, os1) \<Rightarrow> (Some (OsError e), \<lparr>db = kv1, os = os1\<rparr>)
           | (None, os1) \<Rightarrow> (None, \<lparr>db = del d kv1 volumeID, os = os1\<rparr>)))"

definition Snapshot ::
  "nfsDriver \<Rightarrow> 'os world \<Rightarrow> string \<Rightarrow> 'lb \<Rightarrow> (string \<times> error option) \<times> 'os world" where
  "Snapshot d w volumeID labels = (([], Some volume_ErrNotSupported), w)"

definition SnapDelete :: "nfsDriver \<Rightarrow> 'os world \<Rightarrow> string \<Rightarrow> error option \<times> 'os world" where
  "SnapDelete d w snapID = (Some volume_ErrNotSupported, w)"

definition SnapInspect ::
  "nfsDriver \<Rightarrow> 'os world \<Rightarrow> string list \<Rightarrow> ('s list \<times> error option) \<times> 'os world" where
  "SnapInspect d w snapID = (([], Some volume_ErrNotSupported), w)"

definition Enumerate ::
  "nfsDriver \<Rightarrow> 'os world \<Rightarrow> 'l \<Rightarrow> 'lb \<Rightarrow> ('v list \<times> error option) \<times> 'os world" where
  "Enumerate d w locator labels = (([], Some volume_ErrNotSupported), w)"

definition SnapEnumerate ::
  "nfsDriver \<Rightarrow> 'os world \<Rightarrow> 'l \<Rightarrow> 'lb \<Rightarrow> ('s list \<times> error option) \<times> 'os world" where
  "SnapEnumerate d w locator labels = (([], Some volume_ErrNotSupported), w)"

definition Mount ::
  "'os syscalls \<Rightarrow> nfsDriver \<Rightarrow> 'os world \<Rightarrow> string \<Rightarrow> string \<Rightarrow> error option \<times> 'os world" where
  "Mount sys d w volumeID mountpath' =
     (case get d (db w) volumeID of
        ((v, Some e), kv1) \<Rightarrow> (Some e, w\<lparr>db := kv1\<rparr>)
      | ((v, None), kv1) \<Rightarrow>
          (case syscall_Mount sys (device v) mountpath' (Format (spec v)) 0 [] (os w) of
             (Some e, os1) \<Rightarrow> (Some (OsError e), \<lparr>db = kv1, os = os1\<rparr>)
           | (None, os1) \<Rightarrow>
               (case put d kv1 volumeID (v\<lparr>mountpath := mountpath', mounted := True\<rparr>) of
                  (err, kv2) \<Rightarrow> (err, \<lparr>db = kv2, os = os1\<rparr>))))"

definition Unmount ::
  "'os syscalls \<Rightarrow> nfsDriver \<Rightarrow> 'os world \<Rightarrow> string \<Rightarrow> string \<Rightarrow> error option \<times> 'os world" where
  "Unmount sys d w volumeID mountpath' =
     (case get d (db w) volumeID of
        ((v, Some e), kv1) \<Rightarrow> (Some e, w\<lparr>db := kv1\<rparr>)
      | ((v, None), kv1) \<Rightarrow>
          (case syscall_Unmount sys (mountpath v) 0 (os w) of
             (Some e, os1) \<Rightarrow> (Some (OsError e), \<lparr>db = kv1, os = os1\<rparr>)
           | (None, os1) \<Rightarrow>
               (case put d kv1 volumeID (v\<lparr>mountpath := [], mounted := False\<rparr>) of
                  (err, kv2) \<Rightarrow> (err, \<lparr>db = kv2, os = os1\<rparr>))))"

section \<open>Notions the properties are stated with\<close>

text \<open>
  The key expression of \<open>get\<close>, \<open>put\<close> and \<open>del\<close>, with the driver's constant
  \<open>NfsDBKey\<close> as a parameter: the key another driver would use with its own constant.
\<close>

definition storeKey :: "string \<Rightarrow> string \<Rightarrow> string" where
  "storeKey prefix' volumeID = prefix' @ ''/'' @ volumeID"

text \<open>The store answers its next request, and its next \<open>n\<close> requests.\<close>

definition kvdb_answers :: "kvdb \<Rightarrow> bool" where
  "kvdb_answers kv = (\<not> fst (kvdb_request kv))"

definition kvdb_reachable :: "nat \<Rightarrow> kvdb \<Rightarrow> bool" where
  "kvdb_reachable n kv = (True \<notin> set (take n (kv_faults kv)))"

text \<open>
  \<open>Delete\<close> interrupted between \<open>os.Remove\<close> and \<open>d.del\<close>: the world the process
  leaves behind when it stops there, \<open>None\<close> when \<open>Delete\<close> returns before that point.
\<close>

definition Delete_until_del ::
  "'os syscalls \<Rightarrow> nfsDriver \<Rightarrow> 'os world \<Rightarrow> string \<Rightarrow> 'os world option" where
  "Delete_until_del sys d w volumeID =
     (case get d (db w) volumeID of
        ((v, Some e), kv1) \<Rightarrow> None
      | ((v, None), kv1) \<Rightarrow>
          (case os_Remove sys (device v) (os w) of
             (Some e, os1) \<Rightarrow> None
           | (None, os1) \<Rightarrow> Some \<lparr>db = kv1, os = os1\<rparr>))"

section \<open>A small operating system to run the driver on\<close>

text \<open>
  One instance of the system calls, for running the driver on concrete inputs: the
  directories that exist, the mount table (target and source), and the identifiers
  \<open>uuidgen\<close> will print, each followed by a newline. \<open>os.Remove\<close> fails with
  \<open>ENOENT\<close> on a path that does not exist, \<open>mount\<close> needs its source and its target
  to exist, \<open>umount\<close> fails with \<open>EINVAL\<close> on a path that is not a mount point.
\<close>

record local_fs =
  dirs :: "string list"
  mounts :: "(string \<times> string) list"
  uuids :: "string list"

definition local_uuidgen :: "local_fs \<Rightarrow> (string \<times> errno option) \<times> local_fs" where
  "local_uuidgen s =
     (case uuids s of
        [] \<Rightarrow> (([], Some EIO), s)
      | u # us \<Rightarrow> ((u @ [CHR 0x0A], None), s\<lparr>uuids := us\<rparr>))"

definition local_MkdirAll :: "string \<Rightarrow> nat \<Rightarrow> local_fs \<Rightarrow> errno option \<times> local_fs" where
  "local_MkdirAll path perm s =
     (None, if path \<in> set (dirs s) then s else s\<lparr>dirs := path # dirs s\<rparr>)"

definition local_Remove :: "string \<Rightarrow> local_fs \<Rightarrow> errno option \<times> local_fs" where
  "local_Remove path s =
     (if path \<in> set (dirs s) then (None, s\<lparr>dirs := removeAll path (dirs s)\<rparr>)
      else (Some ENOENT, s))"

definition local_Mount ::
  "string \<Rightarrow> string \<Rightarrow> string \<Rightarrow> nat \<Rightarrow> string \<Rightarrow> local_fs \<Rightarrow> errno option \<times> local_fs" where
  "local_Mount source target fstype flags data s =
     (if source \<in> set (dirs s) \<and> target \<in> set (dirs s)
      then (None, s\<lparr>mounts := (target, source) # mounts s\<rparr>)
      else (Some ENOENT, s))"

definition local_Unmount :: "string \<Rightarrow> nat \<Rightarrow> local_fs \<Rightarrow> errno option \<times> local_fs" where
  "local_Unmount target flags s =
     (if target \<in> fst ` set (mounts s)
      then (None, s\<lparr>mounts := filter (\<lambda>m. fst m \<noteq> target) (mounts s)\<rparr>)
      else (Some EINVAL, s))"

definition local_sys :: "local_fs syscalls" where
  "local_sys =
     \<lparr>exec_uuidgen = local_uuidgen, os_MkdirAll = local_MkdirAll,
      os_Remove = local_Remove, syscall_Mount = local_Mount,
      syscall_Unmount = local_Unmount\<rparr>"

text \<open>
  A driver bound at \<open>/mnt/u0\<close>, a spec, and three worlds: before any volume exists,
  after volume \<open>v1\<close> has been created, and after it has been mounted at \<open>/mnt/x\<close>.
\<close>

definition driver0 :: nfsDriver where
  "driver0 = \<lparr>nfsServer = ''server:/export'', mntPath = ''/mnt/u0''\<rparr>"

definition spec0 :: VolumeSpec where
  "spec0 = \<lparr>Size = 10, Format = ''ext4''\<rparr>"

definition volume0 :: awsVolume where
  "volume0 =
     \<lparr>spec = spec0, formatted = False, attached = False, mounted = False,
      device = ''/mnt/u0v1'', mountpath = []\<rparr>"

definition world_empty :: "local_fs world" where
  "world_empty =
     \<lparr>db = \<lparr>kv_data = Map.empty, kv_faults = []\<rparr>,
      os = \<lparr>dirs = [''/mnt/u0'', ''/mnt/x''], mounts = [], uuids = [''v1'']\<rparr>\<rparr>"

definition world_created :: "local_fs world" where
  "world_created =
     \<lparr>db = \<lparr>kv_data = [''OpenStorageNFSKey/v1'' \<mapsto> volume0], kv_faults = []\<rparr>,
      os = \<lparr>dirs = [''/mnt/u0v1'', ''/mnt/u0'', ''/mnt/x''], mounts = [], uuids = []\<rparr>\<rparr>"

definition world_mounted :: "local_fs world" where
  "world_mounted =
     \<lparr>db = \<lparr>kv_data = [''OpenStorageNFSKey/v1'' \<mapsto>
                volume0\<lparr>mountpath := ''/mnt/x'', mounted := True\<rparr>],
            kv_faults = []\<rparr>,
      os = \<lparr>dirs = [''/mnt/u0v1'', ''/mnt/u0'', ''/mnt/x''],
            mounts = [(''/mnt/x'', ''/mnt/u0v1'')], uuids = []\<rparr>\<rparr>"

text \<open>
  The world a \<open>Delete\<close> of \<open>v1\<close> leaves behind when it stops after \<open>os.Remove\<close>: the
  directory is gone, the record is still in the store.
\<close>

definition world_half_deleted :: "local_fs world" where
  "world_half_deleted =
     \<lparr>db = \<lparr>kv_data = [''OpenStorageNFSKey/v1'' \<mapsto> volume0], kv_faults = []\<rparr>,
      os = \<lparr>dirs = [''/mnt/u0'', ''/mnt/x''], mounts = [], uuids = []\<rparr>\<rparr>"

section \<open>How the operations run\<close>

text \<open>
  The definitions that evaluate the small operating system, the store and the example
  worlds on concrete inputs.
\<close>

lemmas local_defs =
  local_sys_def local_uuidgen_def local_MkdirAll_def local_Remove_def local_Mount_def
  local_Unmount_def

lemmas kv_defs =
  kvdb_request_def kvdb_GetVal_def kvdb_Put_def kvdb_Delete_def get_def put_def del_def

lemmas example_defs =
  driver0_def spec0_def volume0_def world_empty_def world_created_def world_mounted_def
  world_half_deleted_def NfsDBKey_def awsVolume_zero_def

text \<open>
  Each operation, written out over the state of the store: whether the store answers,
  whether the record is there, and what the system call says.
\<close>

lemma kvdb_request_data: "kv_data (snd (kvdb_request kv)) = kv_data kv"
  by (simp add: kvdb_request_def split: list.splits)

lemma get_run:
  "get d kv volumeID =
     (if \<not> kvdb_answers kv
      then ((awsVolume_zero, Some (KvdbError kvdb_ErrUnreachable)), snd (kvdb_request kv))
      else case kv_data kv (NfsDBKey @ ''/'' @ volumeID) of
             None \<Rightarrow> ((awsVolume_zero, Some (KvdbError kvdb_ErrNotFound)), snd (kvdb_request kv))
           | Some v \<Rightarrow> ((v, None), snd (kvdb_request kv)))"
  by (auto simp: get_def kvdb_GetVal_def kvdb_answers_def kvdb_request_def
        split: list.splits option.splits bool.splits)

lemma put_run:
  "put d kv volumeID v =
     (if \<not> kvdb_answers kv
      then (Some (KvdbError kvdb_ErrUnreachable), snd (kvdb_request kv))
      else (None, (snd (kvdb_request kv))\<lparr>kv_data := (kv_data kv)(NfsDBKey @ ''/'' @ volumeID \<mapsto> v)\<rparr>))"
  by (cases "kvdb_request kv")
     (auto simp: put_def kvdb_Put_def kvdb_answers_def kvdb_request_def split: list.splits)

lemma del_run:
  "kv_data (del d kv volumeID) =
     (if kvdb_answers kv then (kv_data kv)(NfsDBKey @ ''/'' @ volumeID := None) else kv_data kv)"
  by (cases "kvdb_request kv")
     (auto simp: del_def kvdb_Delete_def kvdb_answers_def kvdb_request_def Let_def fun_upd_idem
           split: list.splits option.splits)

lemma put_data:
  "kv_data (snd (put d kv volumeID v)) =
     (if fst (put d kv volumeID v) = None
      then (kv_data kv)(NfsDBKey @ ''/'' @ volumeID \<mapsto> v) else kv_data kv)"
  by (simp add: put_run kvdb_request_data)

lemma put_error: "fst (put d kv volumeID v) \<noteq> Some (KvdbError kvdb_ErrNotFound)"
  by (simp add: put_run)

lemma Mount_run:
  "Mount sys d w volumeID target =
     (if \<not> kvdb_answers (db w)
      then (Some (KvdbError kvdb_ErrUnreachable), w\<lparr>db := snd (kvdb_request (db w))\<rparr>)
      else case kv_data (db w) (NfsDBKey @ ''/'' @ volumeID) of
             None \<Rightarrow> (Some (KvdbError kvdb_ErrNotFound), w\<lparr>db := snd (kvdb_request (db w))\<rparr>)
           | Some v \<Rightarrow>
               (case syscall_Mount sys (device v) target (Format (spec v)) 0 [] (os w) of
                  (Some e, os1) \<Rightarrow>
                    (Some (OsError e), \<lparr>db = snd (kvdb_request (db w)), os = os1\<rparr>)
                | (None, os1) \<Rightarrow>
                    (fst (put d (snd (kvdb_request (db w))) volumeID
                            (v\<lparr>mountpath := target, mounted := True\<rparr>)),
                     \<lparr>db = snd (put d (snd (kvdb_request (db w))) volumeID
                                  (v\<lparr>mountpath := target, mounted := True\<rparr>)),
                      os = os1\<rparr>)))"
  by (simp add: Mount_def get_run split: option.splits prod.splits)

lemma Unmount_run:
  "Unmount sys d w volumeID target =
     (if \<not> kvdb_answers (db w)
      then (Some (KvdbError kvdb_ErrUnreachable), w\<lparr>db := snd (kvdb_request (db w))\<rparr>)
      else case kv_data (db w) (NfsDBKey @ ''/'' @ volumeID) of
             None \<Rightarrow> (Some (KvdbError kvdb_ErrNotFound), w\<lparr>db := snd (kvdb_request (db w))\<rparr>)
           | Some v \<Rightarrow>
               (case syscall_Unmount sys (mountpath v) 0 (os w) of
                  (Some e, os1) \<Rightarrow>
                    (Some (OsError e), \<lparr>db = snd (kvdb_request (db w)), os = os1\<rparr>)
                | (None, os1) \<Rightarrow>
                    (fst (put d (snd (kvdb_request (db w))) volumeID
                            (v\<lparr>mountpath := [], mounted := False\<rparr>)),
                     \<lparr>db = snd (put d (snd (kvdb_request (db w))) volumeID
                                  (v\<lparr>mountpath := [], mounted := False\<rparr>)),
                      os = os1\<rparr>)))"
  by (simp add: Unmount_def get_run split: option.splits prod.splits)

lemma Delete_run:
  "Delete sys d w volumeID =
     (if \<not> kvdb_answers (db w)
      then (Some (KvdbError kvdb_ErrUnreachable), w\<lparr>db := snd (kvdb_request (db w))\<rparr>)
      else case kv_data (db w) (NfsDBKey @ ''/'' @ volumeID) of
             None \<Rightarrow> (Some (KvdbError kvdb_ErrNotFound), w\<lparr>db := snd (kvdb_request (db w))\<rparr>)
           | Some v \<Rightarrow>
               (case os_Remove sys (device v) (os w) of
                  (Some e, os1) \<Rightarrow>
                    (Some (OsError e), \<lparr>db = snd (kvdb_request (db w)), os = os1\<rparr>)
                | (None, os1) \<Rightarrow>
                    (None, \<lparr>db = del d (snd (kvdb_request (db w))) volumeID, os = os1\<rparr>)))"
  by (simp add: Delete_def get_run split: option.splits prod.splits)

lemma kvdb_reachable_2:
  "kvdb_reachable 2 kv \<Longrightarrow> kvdb_answers kv \<and> kvdb_answers (snd (kvdb_request kv))"
  by (cases "kv_faults kv"; cases "tl (kv_faults kv)")
     (auto simp: kvdb_reachable_def kvdb_answers_def kvdb_request_def numeral_2_eq_2)

section \<open>Mount and Unmount\<close>

text \<open>
  C1, as the code has it. After a successful \<open>Mount\<close> of a volume at a target, the
  record persisted for the volume is the record that was persisted before, with
  \<open>mounted\<close> true and \<open>mountpath\<close> the requested target. \<open>attached\<close> keeps the
  value it had: \<open>Mount\<close> does not set it.
\<close>

theorem Mount_success_record:
  assumes "Mount sys d w volumeID target = (None, w')"
  shows "\<exists>v r. kv_data (db w) (NfsDBKey @ ''/'' @ volumeID) = Some v
           \<and> kv_data (db w') (NfsDBKey @ ''/'' @ volumeID) = Some r
           \<and> r = v\<lparr>mountpath := target, mounted := True\<rparr>
           \<and> mounted r \<and> mountpath r = target \<and> attached r = attached v"
  using assms
  by (auto simp: Mount_run put_data kvdb_request_data split: if_splits option.splits prod.splits)

theorem Mount_success_record_witness:
  "Mount local_sys driver0 world_created ''v1'' ''/mnt/x'' = (None, world_mounted)
   \<and> kv_data (db world_mounted) (NfsDBKey @ ''/'' @ ''v1'')
       = Some (volume0\<lparr>mountpath := ''/mnt/x'', mounted := True\<rparr>)"
proof -
  have run: "Mount local_sys driver0 world_created ''v1'' ''/mnt/x'' = (None, world_mounted)"
    by (simp add: Mount_def local_defs kv_defs example_defs)
  have before: "kv_data (db world_created) (NfsDBKey @ ''/'' @ ''v1'') = Some volume0"
    by (simp add: example_defs)
  from Mount_success_record [OF run] before show ?thesis
    using run by auto
qed

text \<open>
  A volume that has just been created and is then mounted: \<open>Mount\<close> succeeds, and the
  persisted record has \<open>attached\<close> false.
\<close>

theorem Mount_attached_counterexample:
  "fst (Mount local_sys driver0 world_created ''v1'' ''/mnt/x'') = None
   \<and> map_option attached
        (kv_data (db (snd (Mount local_sys driver0 world_created ''v1'' ''/mnt/x'')))
           (NfsDBKey @ ''/'' @ ''v1'')) = Some False"
  by (simp add: Mount_def local_defs kv_defs example_defs)

text \<open>
  C3. When the record is there and the store answers, and the mount system call on the
  record's device, the target and the spec's format fails with an error, \<open>Mount\<close>
  returns that error and the store holds what it held before.
\<close>

theorem Mount_syscall_failure:
  assumes "kvdb_answers (db w)"
    and "kv_data (db w) (NfsDBKey @ ''/'' @ volumeID) = Some v"
    and "fst (syscall_Mount sys (device v) target (Format (spec v)) 0 [] (os w)) = Some e"
  shows "fst (Mount sys d w volumeID target) = Some (OsError e)
         \<and> kv_data (db (snd (Mount sys d w volumeID target))) = kv_data (db w)"
  using assms
  by (auto simp: Mount_run kvdb_request_data split: prod.splits option.splits)

theorem Mount_syscall_failure_witness:
  "kvdb_answers (db world_created)
   \<and> kv_data (db world_created) (NfsDBKey @ ''/'' @ ''v1'') = Some volume0
   \<and> fst (syscall_Mount local_sys (device volume0) ''/nowhere'' (Format (spec volume0)) 0 []
            (os world_created)) = Some ENOENT
   \<and> fst (Mount local_sys driver0 world_created ''v1'' ''/nowhere'') = Some (OsError ENOENT)
   \<and> kv_data (db (snd (Mount local_sys driver0 world_created ''v1'' ''/nowhere'')))
       = kv_data (db world_created)"
proof -
  have up: "kvdb_answers (db world_created)"
    by (simp add: kvdb_answers_def kvdb_request_def world_created_def)
  have rec: "kv_data (db world_created) (NfsDBKey @ ''/'' @ ''v1'') = Some volume0"
    by (simp add: example_defs)
  have sys: "fst (syscall_Mount local_sys (device volume0) ''/nowhere'' (Format (spec volume0))
                    0 [] (os world_created)) = Some ENOENT"
    by (simp add: local_defs example_defs)
  from Mount_syscall_failure [OF up rec sys] up rec sys show ?thesis by simp
qed

text \<open>
  C4. After a successful \<open>Unmount\<close> the record persisted for the volume has
  \<open>mounted\<close> false and an empty \<open>mountpath\<close>; it is the record that was persisted
  before with these two fields set.
\<close>

theorem Unmount_success_record:
  assumes "Unmount sys d w volumeID target = (None, w')"
  shows "\<exists>v r. kv_data (db w) (NfsDBKey @ ''/'' @ volumeID) = Some v
           \<and> kv_data (db w') (NfsDBKey @ ''/'' @ volumeID) = Some r
           \<and> r = v\<lparr>mountpath := [], mounted := False\<rparr>
           \<and> \<not> mounted r \<and> mountpath r = []"
  using assms
  by (auto simp: Unmount_run put_data kvdb_request_data split: if_splits option.splits prod.splits)

theorem Unmount_success_record_witness:
  "Unmount local_sys driver0 world_mounted ''v1'' ''/mnt/x'' = (None, world_created)
   \<and> kv_data (db world_created) (NfsDBKey @ ''/'' @ ''v1'') = Some volume0
   \<and> \<not> mounted volume0 \<and> mountpath volume0 = []"
proof -
  have run: "Unmount local_sys driver0 world_mounted ''v1'' ''/mnt/x'' = (None, world_created)"
    by (simp add: Unmount_def local_defs kv_defs example_defs)
  have after: "kv_data (db world_created) (NfsDBKey @ ''/'' @ ''v1'') = Some volume0"
    by (simp add: example_defs)
  from Unmount_success_record [OF run] after show ?thesis
    using run by (auto simp: volume0_def)
qed

text \<open>
  C9. \<open>Unmount\<close> does not read its \<open>mountpath\<close> argument: result and world are the
  same for any two values of it. When the record is there and the store answers, the
  system is left as the unmount system call on the record's \<open>mountpath\<close> leaves it.
\<close>

theorem Unmount_ignores_argument:
  "Unmount sys d w volumeID target = Unmount sys d w volumeID target'
   \<and> (kvdb_answers (db w) \<longrightarrow> kv_data (db w) (NfsDBKey @ ''/'' @ volumeID) = Some v \<longrightarrow>
        os (snd (Unmount sys d w volumeID target))
          = snd (syscall_Unmount sys (mountpath v) 0 (os w)))"
  by (auto simp: Unmount_run split: prod.splits option.splits)

theorem Unmount_ignores_argument_witness:
  "Unmount local_sys driver0 world_mounted ''v1'' ''/elsewhere''
     = Unmount local_sys driver0 world_mounted ''v1'' ''/mnt/x''
   \<and> kvdb_answers (db world_mounted)
   \<and> kv_data (db world_mounted) (NfsDBKey @ ''/'' @ ''v1'')
       = Some (volume0\<lparr>mountpath := ''/mnt/x'', mounted := True\<rparr>)
   \<and> os (snd (Unmount local_sys driver0 world_mounted ''v1'' ''/elsewhere''))
       = snd (syscall_Unmount local_sys ''/mnt/x'' 0 (os world_mounted))
   \<and> mounts (os (snd (Unmount local_sys driver0 world_mounted ''v1'' ''/elsewhere''))) = []"
proof -
  have up: "kvdb_answers (db world_mounted)"
    by (simp add: kvdb_answers_def kvdb_request_def world_mounted_def)
  have rec: "kv_data (db world_mounted) (NfsDBKey @ ''/'' @ ''v1'')
               = Some (volume0\<lparr>mountpath := ''/mnt/x'', mounted := True\<rparr>)"
    by (simp add: example_defs)
  have sys: "mounts (snd (syscall_Unmount local_sys ''/mnt/x'' 0 (os world_mounted))) = []"
    by (simp add: local_defs example_defs)
  note arg =
    Unmount_ignores_argument
      [of local_sys driver0 world_mounted "''v1''" "''/elsewhere''" "''/mnt/x''"
          "volume0\<lparr>mountpath := ''/mnt/x'', mounted := True\<rparr>"]
  from arg have same: "Unmount local_sys driver0 world_mounted ''v1'' ''/elsewhere''
                 = Unmount local_sys driver0 world_mounted ''v1'' ''/mnt/x''"
    by (rule conjunct1)
  have field: "mountpath (volume0\<lparr>mountpath := ''/mnt/x'', mounted := True\<rparr>) = ''/mnt/x''"
    by simp
  from arg up rec
  have "os (snd (Unmount local_sys driver0 world_mounted ''v1'' ''/elsewhere''))
          = snd (syscall_Unmount local_sys
                   (mountpath (volume0\<lparr>mountpath := ''/mnt/x'', mounted := True\<rparr>)) 0
                   (os world_mounted))"
    by blast
  then
  have left: "os (snd (Unmount local_sys driver0 world_mounted ''v1'' ''/elsewhere''))
                = snd (syscall_Unmount local_sys ''/mnt/x'' 0 (os world_mounted))"
    by (simp only: field)
  from left sys
  have none: "mounts (os (snd (Unmount local_sys driver0 world_mounted ''v1'' ''/elsewhere'')))
                = []"
    by (simp only:)
  from same up rec left none show ?thesis by blast
qed

section \<open>Absent records\<close>

text \<open>
  C2, as the code has it. \<open>Mount\<close>, \<open>Unmount\<close> and \<open>Delete\<close> return the store's
  key-not-found error, as \<open>GetVal\<close> gave it, exactly when the store answers the lookup
  and holds no record for the volume.
\<close>

theorem NotFound_iff_absent:
  "(fst (Mount sys d w volumeID target) = Some (KvdbError kvdb_ErrNotFound))
      = (kvdb_answers (db w) \<and> kv_data (db w) (NfsDBKey @ ''/'' @ volumeID) = None)
   \<and> (fst (Unmount sys d w volumeID target) = Some (KvdbError kvdb_ErrNotFound))
      = (kvdb_answers (db w) \<and> kv_data (db w) (NfsDBKey @ ''/'' @ volumeID) = None)
   \<and> (fst (Delete sys d w volumeID) = Some (KvdbError kvdb_ErrNotFound))
      = (kvdb_answers (db w) \<and> kv_data (db w) (NfsDBKey @ ''/'' @ volumeID) = None)"
  by (auto simp: Mount_run Unmount_run Delete_run put_error split: prod.splits option.splits)

theorem NotFound_iff_absent_witness:
  "kvdb_answers (db world_empty)
   \<and> kv_data (db world_empty) (NfsDBKey @ ''/'' @ ''v1'') = None
   \<and> fst (Mount local_sys driver0 world_empty ''v1'' ''/mnt/x'')
       = Some (KvdbError kvdb_ErrNotFound)
   \<and> fst (Unmount local_sys driver0 world_empty ''v1'' ''/mnt/x'')
       = Some (KvdbError kvdb_ErrNotFound)
   \<and> fst (Delete local_sys driver0 world_empty ''v1'') = Some (KvdbError kvdb_ErrNotFound)"
proof -
  have up: "kvdb_answers (db world_empty)"
    by (simp add: kvdb_answers_def kvdb_request_def world_empty_def)
  have absent: "kv_data (db world_empty) (NfsDBKey @ ''/'' @ ''v1'') = None"
    by (simp add: example_defs)
  from NotFound_iff_absent [of local_sys driver0 world_empty "''v1''" "''/mnt/x''"] up absent
  show ?thesis by simp
qed

text \<open>
  No record is persisted for \<open>v1\<close>: \<open>Inspect\<close> returns no error, and \<open>Mount\<close> returns
  the error of the store, which is not a value of package errors.
\<close>

theorem NotFound_counterexample:
  "kv_data (db world_empty) (NfsDBKey @ ''/'' @ ''v1'') = None
   \<and> snd (fst (Inspect driver0 world_empty [''v1'']
                 :: (unit list \<times> error option) \<times> local_fs world)) = None
   \<and> fst (Mount local_sys driver0 world_empty ''v1'' ''/mnt/x'')
       = Some (KvdbError kvdb_ErrNotFound)"
  by (simp add: Inspect_def Mount_def local_defs kv_defs example_defs)

section \<open>Create and Delete\<close>

text \<open>
  C10. After a successful \<open>Create\<close> the record persisted for the new volume has the
  supplied spec, \<open>formatted\<close>, \<open>attached\<close> and \<open>mounted\<close> false, an empty
  \<open>mountpath\<close>, and as \<open>device\<close> the driver's mount path followed by the new
  identifier.
\<close>

theorem Create_initial_record:
  assumes "Create sys d w l opt sp = (Return (volumeID, None), w')"
  shows "\<exists>s. sp = Some s
           \<and> kv_data (db w') (NfsDBKey @ ''/'' @ volumeID)
               = Some \<lparr>spec = s, formatted = False, attached = False, mounted = False,
                       device = mntPath d @ volumeID, mountpath = []\<rparr>"
  using assms
  by (auto simp: Create_def Let_def put_run awsVolume_zero_def
           split: prod.splits option.splits if_splits)

theorem Create_initial_record_witness:
  "Create local_sys driver0 world_empty () () (Some spec0) = (Return (''v1'', None), world_created)
   \<and> kv_data (db world_created) (NfsDBKey @ ''/'' @ ''v1'')
       = Some \<lparr>spec = spec0, formatted = False, attached = False, mounted = False,
               device = mntPath driver0 @ ''v1'', mountpath = []\<rparr>"
proof -
  have run: "Create local_sys driver0 world_empty () () (Some spec0)
               = (Return (''v1'', None), world_created)"
    by (simp add: Create_def local_defs kv_defs example_defs TrimSuffix_def
        suffix_to_prefix Let_def)
  from Create_initial_record [OF run] run show ?thesis by simp
qed

text \<open>
  C5, as the code has it. A \<open>Delete\<close> has removed the directory and stopped before
  \<open>d.del\<close>; the store answers the requests of the next \<open>Delete\<close> of the same volume.
  That \<open>Delete\<close> finds the record and calls \<open>os.Remove\<close> on its device again. If the
  call fails, \<open>Delete\<close> returns its error and the store holds what it held; if it
  succeeds, \<open>Delete\<close> succeeds and the record is gone.
\<close>

theorem Delete_retry:
  assumes "Delete_until_del sys d w volumeID = Some w1"
    and "kvdb_reachable 2 (db w1)"
  shows "\<exists>v. kv_data (db w1) (NfsDBKey @ ''/'' @ volumeID) = Some v
          \<and> (case fst (os_Remove sys (device v) (os w1)) of
                Some e \<Rightarrow>
                  fst (Delete sys d w1 volumeID) = Some (OsError e)
                  \<and> kv_data (db (snd (Delete sys d w1 volumeID))) = kv_data (db w1)
              | None \<Rightarrow>
                  fst (Delete sys d w1 volumeID) = None
                  \<and> kv_data (db (snd (Delete sys d w1 volumeID)))
                      = (kv_data (db w1))(NfsDBKey @ ''/'' @ volumeID := None))"
proof -
  from assms(1) obtain v where v: "kv_data (db w1) (NfsDBKey @ ''/'' @ volumeID) = Some v"
    by (auto simp: Delete_until_del_def get_run kvdb_request_data
             split: if_splits option.splits prod.splits)
  from kvdb_reachable_2 [OF assms(2)]
  have a1: "kvdb_answers (db w1)" and a2: "kvdb_answers (snd (kvdb_request (db w1)))"
    by simp_all
  show ?thesis
    using v a1 a2
    by (auto simp: Delete_run del_run kvdb_request_data split: option.splits prod.splits)
qed

theorem Delete_retry_witness:
  "Delete_until_del local_sys driver0 world_created ''v1'' = Some world_half_deleted
   \<and> kvdb_reachable 2 (db world_half_deleted)
   \<and> fst (Delete local_sys driver0 world_half_deleted ''v1'') = Some (OsError ENOENT)
   \<and> kv_data (db (snd (Delete local_sys driver0 world_half_deleted ''v1'')))
       = kv_data (db world_half_deleted)"
proof -
  have crash: "Delete_until_del local_sys driver0 world_created ''v1'' = Some world_half_deleted"
    by (simp add: Delete_until_del_def local_defs kv_defs example_defs)
  have up: "kvdb_reachable 2 (db world_half_deleted)"
    by (simp add: kvdb_reachable_def world_half_deleted_def)
  have rec: "kv_data (db world_half_deleted) (NfsDBKey @ ''/'' @ ''v1'') = Some volume0"
    by (simp add: example_defs)
  have rm: "fst (os_Remove local_sys (device volume0) (os world_half_deleted)) = Some ENOENT"
    by (simp add: local_defs example_defs)
  from Delete_retry [OF crash up] rec rm crash up show ?thesis by auto
qed

text \<open>
  On a system where \<open>os.Remove\<close> fails on a path that does not exist, the \<open>Delete\<close>
  after the interrupted one fails with \<open>ENOENT\<close> and the record stays.
\<close>

theorem Delete_retry_counterexample:
  "Delete_until_del local_sys driver0 world_created ''v1'' = Some world_half_deleted
   \<and> Delete local_sys driver0 world_half_deleted ''v1''
       = (Some (OsError ENOENT), world_half_deleted)
   \<and> kv_data (db world_half_deleted) (NfsDBKey @ ''/'' @ ''v1'') = Some volume0"
  by (simp add: Delete_until_del_def Delete_def local_defs kv_defs example_defs)

section \<open>Capability defaults\<close>

text \<open>
  C6. On the NFS driver \<open>Snapshot\<close>, \<open>SnapDelete\<close>, \<open>SnapInspect\<close> and
  \<open>SnapEnumerate\<close> fail, for every argument and in every world, with the one
  \<open>NotSupported\<close> error and change nothing; that error is a value without fields, and
  its message is always \<open>Not Supported\<close>.
\<close>

theorem snapshot_operations_not_supported:
  "snd (fst (Snapshot d w volumeID labels)) = Some (PkgError ErrNotSupported)
   \<and> fst (SnapDelete d w snapID) = Some (PkgError ErrNotSupported)
   \<and> snd (fst (SnapInspect d w snapIDs :: ('s list \<times> error option) \<times> 'os world))
       = Some (PkgError ErrNotSupported)
   \<and> snd (fst (SnapEnumerate d w locator labels' :: ('s list \<times> error option) \<times> 'os world))
       = Some (PkgError ErrNotSupported)
   \<and> snd (Snapshot d w volumeID labels) = w
   \<and> snd (SnapDelete d w snapID) = w
   \<and> snd (SnapInspect d w snapIDs :: ('s list \<times> error option) \<times> 'os world) = w
   \<and> snd (SnapEnumerate d w locator labels' :: ('s list \<times> error option) \<times> 'os world) = w
   \<and> Error ErrNotSupported = Return ''Not Supported''"
  by (simp add: Snapshot_def SnapDelete_def SnapInspect_def SnapEnumerate_def
      volume_ErrNotSupported_def)

section \<open>The message of a resize conflict\<close>

lemma resize_message_parts:
  fixes a u b s m q :: string
  shows "sublist u (a @ u @ b)
    \<and> sublist u ((a @ u @ b) @ s @ m @ s @ q)
    \<and> sublist m ((a @ u @ b) @ s @ m @ s @ q)
    \<and> sublist q ((a @ u @ b) @ s @ m @ s @ q)"
proof (intro conjI)
  show "sublist u (a @ u @ b)"
    by (rule sublist_appendI)
  have "(a @ u @ b) @ s @ m @ s @ q = a @ u @ (b @ s @ m @ s @ q)"
    by (simp only: append_assoc)
  then show "sublist u ((a @ u @ b) @ s @ m @ s @ q)"
    by (simp only: sublist_appendI)
  have "(a @ u @ b) @ s @ m @ s @ q = ((a @ u @ b) @ s) @ m @ (s @ q)"
    by (simp only: append_assoc)
  then show "sublist m ((a @ u @ b) @ s @ m @ s @ q)"
    by (simp only: sublist_appendI)
  have "(a @ u @ b) @ s @ m @ s @ q = ((a @ u @ b) @ s @ m @ s) @ q @ []"
    by (simp only: append_assoc append_Nil2)
  then show "sublist q ((a @ u @ b) @ s @ m @ s @ q)"
    by (simp only: sublist_appendI)
qed

lemma resize_message_contains:
  fixes a u b s m :: string
  assumes m: "m = (case lo of
                     None \<Rightarrow> a @ u @ b
                   | Some opn \<Rightarrow>
                       if Type opn = SdkStoragePool_OPERATION_RESIZE
                       then (a @ u @ b) @ s @ Msg opn @ s @ Params opn
                       else a @ u @ b)"
  shows "sublist u m
     \<and> (\<forall>opn. lo = Some opn \<and> Type opn = SdkStoragePool_OPERATION_RESIZE \<longrightarrow>
           sublist (Msg opn) m \<and> sublist (Params opn) m)"
proof (cases lo)
  case None
  with m have "m = a @ u @ b" by (simp only: option.case)
  with None resize_message_parts [of u a b] show ?thesis by blast
next
  case (Some opn)
  show ?thesis
  proof (cases "Type opn = SdkStoragePool_OPERATION_RESIZE")
    case False
    with m Some have "m = a @ u @ b" by (simp only: option.case if_False)
    with Some False resize_message_parts [of u a b] show ?thesis by blast
  next
    case True
    with m Some have "m = (a @ u @ b) @ s @ Msg opn @ s @ Params opn"
      by (simp only: option.case simp_thms if_True)
    with Some resize_message_parts [of u a b s "Msg opn" "Params opn"]
    show ?thesis by blast
  qed
qed

lemma resize_message_run:
  "Error (ErrStoragePoolResizeInProgress (Some p)) =
     Return (case LastOperation p of
               None \<Rightarrow> ''a resize for pool: '' @ Uuid p @ '' is already in progress.''
             | Some opn \<Rightarrow>
                 if Type opn = SdkStoragePool_OPERATION_RESIZE
                 then (''a resize for pool: '' @ Uuid p @ '' is already in progress.'')
                        @ '' '' @ Msg opn @ '' '' @ Params opn
                 else ''a resize for pool: '' @ Uuid p @ '' is already in progress.'')"
  by (simp add: GetUuid_def split: option.splits)

text \<open>
  C7, as the code has it. A \<open>ResizeInProgress\<close> value whose pool is not nil renders a
  message. Every message rendered comes from a value with a pool and contains the
  pool's identifier and, when the pool's last operation is a resize, that operation's
  message and its parameters.
\<close>

theorem ResizeInProgress_message:
  "(pool \<noteq> None \<longrightarrow> (\<exists>m. Error (ErrStoragePoolResizeInProgress pool) = Return m))
   \<and> (Error (ErrStoragePoolResizeInProgress pool) = Return m \<longrightarrow>
        (\<exists>p. pool = Some p \<and> sublist (Uuid p) m
           \<and> (\<forall>opn. LastOperation p = Some opn
                 \<and> Type opn = SdkStoragePool_OPERATION_RESIZE \<longrightarrow>
                 sublist (Msg opn) m \<and> sublist (Params opn) m)))"
proof (cases pool)
  case None
  have "Error (ErrStoragePoolResizeInProgress None) = Panic"
    by (simp only: Error.simps Let_def option.case)
  with None show ?thesis by (metis outcome.distinct(1))
next
  case (Some p)
  have total: "\<exists>m. Error (ErrStoragePoolResizeInProgress (Some p)) = Return m"
    using resize_message_run [of p] by blast
  have parts: "sublist (Uuid p) m
      \<and> (\<forall>opn. LastOperation p = Some opn \<and> Type opn = SdkStoragePool_OPERATION_RESIZE \<longrightarrow>
            sublist (Msg opn) m \<and> sublist (Params opn) m)"
    if run: "Error (ErrStoragePoolResizeInProgress (Some p)) = Return m"
  proof (rule resize_message_contains)
    from run have "Return m = Error (ErrStoragePoolResizeInProgress (Some p))"
      by (rule sym)
    also note resize_message_run [of p]
    finally show "m = (case LastOperation p of
                 None \<Rightarrow> ''a resize for pool: '' @ Uuid p @ '' is already in progress.''
               | Some opn \<Rightarrow>
                   if Type opn = SdkStoragePool_OPERATION_RESIZE
                   then (''a resize for pool: '' @ Uuid p @ '' is already in progress.'')
                          @ '' '' @ Msg opn @ '' '' @ Params opn
                   else ''a resize for pool: '' @ Uuid p @ '' is already in progress.'')"
      by (simp only: outcome.inject)
  qed
  from Some total parts show ?thesis by blast
qed

theorem ResizeInProgress_message_witness:
  "Error (ErrStoragePoolResizeInProgress
            (Some \<lparr>Uuid = ''pool-7'',
                   LastOperation = Some \<lparr>Type = SdkStoragePool_OPERATION_RESIZE,
                                          Msg = ''expanding'', Params = ''+50GiB''\<rparr>\<rparr>))
     = Return ''a resize for pool: pool-7 is already in progress. expanding +50GiB''
   \<and> sublist ''pool-7'' ''a resize for pool: pool-7 is already in progress. expanding +50GiB''
   \<and> sublist ''expanding'' ''a resize for pool: pool-7 is already in progress. expanding +50GiB''
   \<and> sublist ''+50GiB'' ''a resize for pool: pool-7 is already in progress. expanding +50GiB''"
proof -
  define opn0 where "opn0 = \<lparr>Type = SdkStoragePool_OPERATION_RESIZE,
                              Msg = ''expanding'', Params = ''+50GiB''\<rparr>"
  define pl where "pl = \<lparr>Uuid = ''pool-7'', LastOperation = Some opn0\<rparr>"
  define msg where "msg = ''a resize for pool: pool-7 is already in progress. expanding +50GiB''"
  have run: "Error (ErrStoragePoolResizeInProgress (Some pl)) = Return msg"
    by (simp add: GetUuid_def pl_def opn0_def msg_def)
  have fields: "Uuid pl = ''pool-7''" "LastOperation pl = Some opn0"
    "Type opn0 = SdkStoragePool_OPERATION_RESIZE" "Msg opn0 = ''expanding''"
    "Params opn0 = ''+50GiB''"
    by (simp_all add: pl_def opn0_def)
  from ResizeInProgress_message [of "Some pl" msg] run
  obtain p where p: "Some pl = Some p" "sublist (Uuid p) msg"
    "\<forall>opn. LastOperation p = Some opn \<and> Type opn = SdkStoragePool_OPERATION_RESIZE \<longrightarrow>
       sublist (Msg opn) msg \<and> sublist (Params opn) msg"
    by blast
  from p(1) have "p = pl" by simp
  with p(2,3) fields have "sublist ''pool-7'' msg" "sublist ''expanding'' msg"
    "sublist ''+50GiB'' msg"
    by metis+
  with run show ?thesis
    unfolding pl_def opn0_def msg_def by blast
qed

text \<open>
  A \<open>ResizeInProgress\<close> value whose pool is nil: \<open>GetUuid\<close> answers the empty
  string, then \<open>e.Pool.LastOperation\<close> dereferences the nil pool, and no message is
  rendered.
\<close>

theorem ResizeInProgress_nil_pool_counterexample:
  "GetUuid None = []
   \<and> Error (ErrStoragePoolResizeInProgress None) = Panic"
  by (simp add: GetUuid_def)

section \<open>Keys of the store\<close>

lemma storeKey_prefix:
  assumes "storeKey p i = storeKey p' i'"
  shows "prefix (p @ ''/'') (p' @ ''/'') \<or> prefix (p' @ ''/'') (p @ ''/'')"
proof -
  from assms have "(p @ ''/'') @ i = (p' @ ''/'') @ i'"
    by (simp add: storeKey_def)
  then obtain us where
    "(p @ ''/'' = (p' @ ''/'') @ us \<and> us @ i = i') \<or> ((p @ ''/'') @ us = p' @ ''/'' \<and> i = us @ i')"
    unfolding append_eq_append_conv2 by (elim exE)
  then show ?thesis
  proof (elim disjE conjE)
    assume "p @ ''/'' = (p' @ ''/'') @ us"
    then have "prefix (p' @ ''/'') (p @ ''/'')" by (rule prefixI)
    then show ?thesis by (rule disjI2)
  next
    assume "(p @ ''/'') @ us = p' @ ''/''"
    then have "prefix (p @ ''/'') (p' @ ''/'')" by (intro prefixI) (rule sym)
    then show ?thesis by (rule disjI1)
  qed
qed

lemma slash_free_prefix:
  assumes "prefix (p @ ''/'') (p' @ ''/'')" and "CHR ''/'' \<notin> set p'"
  shows "p = p'"
proof -
  from assms(1) obtain zs where zs: "p' @ ''/'' = (p @ ''/'') @ zs"
    by (auto simp: prefix_def)
  show ?thesis
  proof (cases zs rule: rev_cases)
    case Nil
    with zs show ?thesis by simp
  next
    case (snoc ys y)
    with zs have "p' = p @ ''/'' @ ys" by simp
    with assms(2) show ?thesis by simp
  qed
qed

text \<open>
  C8, as the code has it. \<open>get\<close>, \<open>put\<close> and \<open>del\<close> address one key for a volume:
  the constant \<open>NfsDBKey\<close>, a slash and the identifier. Different identifiers have
  different keys. \<open>NfsDBKey\<close> contains no slash, and keys built in this way from two
  different prefixes without a slash never coincide.
\<close>

theorem store_keys:
  "get d kv volumeID = kvdb_GetVal kv (storeKey NfsDBKey volumeID) awsVolume_zero
   \<and> put d kv volumeID v = kvdb_Put kv (storeKey NfsDBKey volumeID) v 0
   \<and> del d kv volumeID = snd (kvdb_Delete kv (storeKey NfsDBKey volumeID))
   \<and> (storeKey p volumeID = storeKey p volumeID' \<longrightarrow> volumeID = volumeID')
   \<and> CHR ''/'' \<notin> set NfsDBKey
   \<and> (p \<noteq> p' \<and> CHR ''/'' \<notin> set p \<and> CHR ''/'' \<notin> set p' \<longrightarrow>
        storeKey p volumeID \<noteq> storeKey p' volumeID')"
proof -
  have ops: "get d kv volumeID = kvdb_GetVal kv (storeKey NfsDBKey volumeID) awsVolume_zero"
    "put d kv volumeID v = kvdb_Put kv (storeKey NfsDBKey volumeID) v 0"
    "del d kv volumeID = snd (kvdb_Delete kv (storeKey NfsDBKey volumeID))"
    by (simp_all add: get_def put_def del_def storeKey_def)
  have inj: "storeKey p volumeID = storeKey p volumeID' \<longrightarrow> volumeID = volumeID'"
    by (simp add: storeKey_def)
  have nfs: "CHR ''/'' \<notin> set NfsDBKey"
    by (simp add: NfsDBKey_def)
  have apart: "p \<noteq> p' \<and> CHR ''/'' \<notin> set p \<and> CHR ''/'' \<notin> set p' \<longrightarrow>
        storeKey p volumeID \<noteq> storeKey p' volumeID'"
  proof (intro impI notI)
    assume h: "p \<noteq> p' \<and> CHR ''/'' \<notin> set p \<and> CHR ''/'' \<notin> set p'"
      and eq: "storeKey p volumeID = storeKey p' volumeID'"
    from storeKey_prefix [OF eq] h show False
      using slash_free_prefix [of p p'] slash_free_prefix [of p' p] by auto
  qed
  from ops inj nfs apart show ?thesis by blast
qed

theorem store_keys_witness:
  "''OpenStorageNFSKey'' \<noteq> ''OpenStorageAWSKey''
   \<and> CHR ''/'' \<notin> set ''OpenStorageNFSKey'' \<and> CHR ''/'' \<notin> set ''OpenStorageAWSKey''
   \<and> storeKey ''OpenStorageNFSKey'' ''v1'' \<noteq> storeKey ''OpenStorageAWSKey'' ''v1''
   \<and> storeKey ''OpenStorageNFSKey'' ''v1'' = ''OpenStorageNFSKey/v1''"
  using store_keys [of driver0 "db world_empty" "''v1''" volume0 "''OpenStorageNFSKey''" "''v1''"
      "''OpenStorageAWSKey''"]
  by (simp add: storeKey_def)

text \<open>
  Two different prefixes, one of them with a slash, and two identifiers with the same
  key.
\<close>

theorem store_keys_counterexample:
  "''OpenStorageNFSKey'' \<noteq> ''OpenStorageNFSKey/a''
   \<and> storeKey ''OpenStorageNFSKey'' ''a/v1'' = storeKey ''OpenStorageNFSKey/a'' ''v1''"
  by (simp add: storeKey_def)

end
